theory Spec2Isabelle
  imports Main "HOL-Library.Sublist" "HOL-Library.AList"
begin

section \<open>Strings\<close>

text \<open>
  Go strings are byte sequences; they are modelled as \<open>string\<close> (a list of 8-bit
  characters). The three functions of package \<open>strings\<close> that \<open>main.go\<close> calls are
  written out. \<open>main.go\<close> calls \<open>strings.Contains\<close> and \<open>strings.Split\<close> only with
  the one-character string \<open>"*"\<close>, so the separator is a single character here.
\<close>

definition HasPrefix :: "string \<Rightarrow> string \<Rightarrow> bool" where
  \<comment> \<open>\<open>strings.HasPrefix(s, prefix)\<close>: \<open>len(s) >= len(prefix) && s[:len(prefix)] == prefix\<close>\<close>
  "HasPrefix s pre = (length pre \<le> length s \<and> take (length pre) s = pre)"

definition Contains :: "string \<Rightarrow> char \<Rightarrow> bool" where
  \<comment> \<open>\<open>strings.Contains(s, "c")\<close> for a one-character substring\<close>
  "Contains s c = (c \<in> set s)"

fun Split :: "string \<Rightarrow> char \<Rightarrow> string list" where
  \<comment> \<open>\<open>strings.Split(s, "c")\<close>: the pieces between the separators; \<open>[""]\<close> for the empty string\<close>
  "Split [] sep = [[]]"
| "Split (c # cs) sep =
     (if c = sep then [] # Split cs sep
      else (case Split cs sep of
              [] \<Rightarrow> [[c]]
            | part # parts \<Rightarrow> (c # part) # parts))"

definition ToSlash :: "char \<Rightarrow> string \<Rightarrow> string" where
  \<comment> \<open>\<open>filepath.ToSlash\<close>; \<open>sep\<close> is \<open>os.PathSeparator\<close> of the platform\<close>
  "ToSlash sep path =
     (if sep = CHR ''/'' then path
      else map (\<lambda>c. if c = sep then CHR ''/'' else c) path)"

section \<open>Data model\<close>

text \<open>
  A Go \<open>map[K]V\<close> is an association list with one entry per key. \<open>range\<close> over a Go map
  visits the entries in an order the runtime picks; here the order of the list stands
  for that order, and statements about a map quantify over every list. A store
  \<open>m[k] = v\<close> is \<open>AList.update k v m\<close>, a lookup \<open>m[k]\<close> is \<open>map_of m k\<close>.
\<close>

definition layerRoot :: string where
  "layerRoot = ''root''"

definition layerUnknown :: string where
  "layerUnknown = ''unknown''"

record LayerConfig =
  Paths :: "string list"

record DependencyRule =
  From :: string
  To :: string
  Allow :: bool

record Config =
  Layers :: "(string \<times> LayerConfig) list"
  DependencyRules :: "DependencyRule list"
  ExcludeDirs :: "string list"

record PackageInfo =
  Path :: string
  Module :: string
  Layer :: string
  Imports :: "string list"
  LayerDeps :: "(string \<times> bool) list"
  ExternalDeps :: "(string \<times> bool) list"

text \<open>
  The unit table is a \<open>map[string]*PackageInfo\<close>: its values are pointers, and
  \<open>analyzePackages\<close> writes through them. A pointer is an address, the heap maps
  addresses to the record stored there. \<open>parseProject\<close> is the only place that
  creates a \<open>PackageInfo\<close>, and it creates both dependency maps with \<open>make\<close>, so
  neither is ever \<open>nil\<close>: the empty list stands for an empty map that can be written.
\<close>

type_synonym ref = nat
type_synonym heap = "ref \<Rightarrow> PackageInfo"
type_synonym packages = "(string \<times> ref) list"

text \<open>
  Every \<open>fmt.Printf\<close> of \<open>main.go\<close> prints one line; a line is recorded with the
  values substituted into its format, and \<open>render\<close> gives the text.
\<close>

datatype line =
    DebugInLayer string string
  | WarnUnknownLayer string
  | WarnImportsUnknown string string
  | LayerViolation string string string
  | DebugLayerDeps string string string
  | ExternalViolation string string string

fun render :: "line \<Rightarrow> string" where
  "render (DebugInLayer pkg layer) =
     ''[debug] pkg '' @ [CHR 0x60] @ pkg @ [CHR 0x60] @ '' is in layer '' @ [CHR 0x60] @ layer @ [CHR 0x60, CHR 0x0A]"
| "render (WarnUnknownLayer pkg) =
     ''[warn] pkg '' @ [CHR 0x60] @ pkg @ [CHR 0x60] @ '' is in layer '' @ [CHR 0x60] @ ''UNKNOWN'' @ [CHR 0x60, CHR 0x0A]"
| "render (WarnImportsUnknown pkg imp) =
     ''[warn] pkg '' @ [CHR 0x60] @ pkg @ [CHR 0x60] @ '' imports UNKNOWN '' @ [CHR 0x60] @ imp @ [CHR 0x60, CHR 0x0A]"
| "render (LayerViolation pkg layer dep) =
     ''LAYER VIOLATION: '' @ pkg @ '' ('' @ layer @ '') -> '' @ dep @ [CHR 0x0A]"
| "render (DebugLayerDeps pkg layer dep) =
     ''[debug] layer deps: '' @ pkg @ '' ('' @ layer @ '') -> '' @ dep @ [CHR 0x0A]"
| "render (ExternalViolation pkg layer dep) =
     ''EXTERNAL VIOLATION: '' @ pkg @ '' ('' @ layer @ '') -> '' @ dep @ [CHR 0x0A]"

type_synonym state = "heap \<times> line list"

definition printf :: "line \<Rightarrow> state \<Rightarrow> state" where
  "printf l s = (fst s, snd s @ [l])"

section \<open>Pattern matcher for dependency rules\<close>

definition matchPattern :: "string \<Rightarrow> string \<Rightarrow> bool" where
  "matchPattern path pattern =
     (if Contains pattern (CHR ''*'')
      then (let parts = Split pattern (CHR ''*'') in HasPrefix path (parts ! 0))
      else path = pattern)"

section \<open>Layer classifier\<close>

text \<open>
  \<open>doublestar.Match(pattern, name)\<close> belongs to a library outside this repository.
  \<open>getLayerForPackage\<close> drops its error and keeps the boolean, so the classifier takes
  the boolean result as a parameter \<open>Match\<close>.
\<close>

type_synonym matcher = "string \<Rightarrow> string \<Rightarrow> bool"

fun matchPaths :: "matcher \<Rightarrow> string \<Rightarrow> string list \<Rightarrow> bool" where
  \<comment> \<open>the inner loop over \<open>layerConfig.Paths\<close>: does some pattern match?\<close>
  "matchPaths Match name [] = False"
| "matchPaths Match name (path # paths) =
     (if Match path name then True else matchPaths Match name paths)"

fun matchLayers :: "matcher \<Rightarrow> string \<Rightarrow> (string \<times> LayerConfig) list \<Rightarrow> (string \<times> line list) option" where
  \<comment> \<open>the outer loop over \<open>config.Layers\<close>: the layer returned from inside the loops, if any\<close>
  "matchLayers Match name [] = None"
| "matchLayers Match name ((layer, layerConfig) # rest) =
     (if matchPaths Match name (Paths layerConfig)
      then Some (layer, [DebugInLayer name layer])
      else matchLayers Match name rest)"

definition getLayerForPackage :: "matcher \<Rightarrow> char \<Rightarrow> string \<Rightarrow> string \<Rightarrow> Config \<Rightarrow> string \<times> line list" where
  \<comment> \<open>returns the layer and the lines it printed\<close>
  "getLayerForPackage Match sep pkgPath relPath config =
     (let pkgSlashPath = ToSlash sep pkgPath in
      case matchLayers Match pkgSlashPath (Layers config) of
        Some found \<Rightarrow> found
      | None \<Rightarrow>
          if relPath = ''.'' then (layerRoot, [])
          else (layerUnknown, [WarnUnknownLayer pkgSlashPath]))"

definition pkgPathOf :: "string \<Rightarrow> string \<Rightarrow> string" where
  \<comment> \<open>\<open>parseProject\<close>: \<open>pkgPath := fmt.Sprintf("%s/%s", modPrefix, relPath)\<close>\<close>
  "pkgPathOf modPrefix relPath = modPrefix @ ''/'' @ relPath"

definition newPackageInfo :: "matcher \<Rightarrow> char \<Rightarrow> string \<Rightarrow> string \<Rightarrow> Config \<Rightarrow> PackageInfo \<times> line list" where
  \<comment> \<open>\<open>parseProject\<close>: the record created for a unit seen for the first time\<close>
  "newPackageInfo Match sep modPrefix relPath config =
     (let pkgPath = pkgPathOf modPrefix relPath;
          classified = getLayerForPackage Match sep pkgPath relPath config
      in (\<lparr>Path = pkgPath, Module = modPrefix, Layer = fst classified, Imports = [],
           LayerDeps = [], ExternalDeps = []\<rparr>, snd classified))"

section \<open>Import graph builder\<close>

definition modulePrefixesOf :: "packages \<Rightarrow> heap \<Rightarrow> (string \<times> bool) list" where
  \<comment> \<open>the first loop of \<open>analyzePackages\<close>: \<open>modulePrefixes[pkg.Module] = true\<close>\<close>
  "modulePrefixesOf packages h =
     foldl (\<lambda>m (key, pkg). AList.update (Module (h pkg)) True m) [] packages"

fun isExternal :: "string \<Rightarrow> (string \<times> bool) list \<Rightarrow> bool" where
  \<comment> \<open>the loop over \<open>modulePrefixes\<close> with its \<open>break\<close>\<close>
  "isExternal imp [] = True"
| "isExternal imp ((module, v) # rest) =
     (if HasPrefix imp module then False else isExternal imp rest)"

definition analyzeImport :: "(string \<times> bool) list \<Rightarrow> packages \<Rightarrow> ref \<Rightarrow> state \<Rightarrow> string \<Rightarrow> state" where
  \<comment> \<open>the body of the loop over \<open>pkg.Imports\<close>\<close>
  "analyzeImport modulePrefixes packages pkg s imp =
     (let h = fst s in
      if isExternal imp modulePrefixes
      then (h(pkg := (h pkg)\<lparr>ExternalDeps := AList.update imp True (ExternalDeps (h pkg))\<rparr>), snd s)
      else (case map_of packages imp of
              Some impPkg \<Rightarrow>
                (let h' = h(pkg := (h pkg)\<lparr>LayerDeps := AList.update (Layer (h impPkg)) True (LayerDeps (h pkg))\<rparr>)
                 in if Layer (h' impPkg) = layerUnknown
                    then printf (WarnImportsUnknown (Path (h' pkg)) (Path (h' impPkg))) (h', snd s)
                    else (h', snd s))
            | None \<Rightarrow> s))"

definition analyzePackage :: "(string \<times> bool) list \<Rightarrow> packages \<Rightarrow> state \<Rightarrow> ref \<Rightarrow> state" where
  "analyzePackage modulePrefixes packages s pkg =
     foldl (analyzeImport modulePrefixes packages pkg) s (Imports (fst s pkg))"

definition analyzePackages :: "packages \<Rightarrow> Config \<Rightarrow> state \<Rightarrow> state" where
  "analyzePackages packages config s =
     (let modulePrefixes = modulePrefixesOf packages (fst s)
      in foldl (\<lambda>s (key, pkg). analyzePackage modulePrefixes packages s pkg) s packages)"

section \<open>Rule evaluator\<close>

fun checkLayerRules :: "ref \<Rightarrow> string \<Rightarrow> DependencyRule list \<Rightarrow> state \<Rightarrow> state" where
  \<comment> \<open>the loop over \<open>config.DependencyRules\<close> for one layer dependency, with its \<open>break\<close>\<close>
  "checkLayerRules pkg layer [] s = s"
| "checkLayerRules pkg layer (rule # rules) s =
     (if matchPattern (Layer (fst s pkg)) (From rule) \<and> matchPattern layer (To rule)
      then (if \<not> Allow rule
            then printf (LayerViolation (Path (fst s pkg)) (Layer (fst s pkg)) layer) s
            else s)
      else checkLayerRules pkg layer rules s)"

fun checkExternalRules :: "ref \<Rightarrow> string \<Rightarrow> DependencyRule list \<Rightarrow> state \<Rightarrow> state" where
  \<comment> \<open>the same loop for one external dependency\<close>
  "checkExternalRules pkg extPkg [] s = s"
| "checkExternalRules pkg extPkg (rule # rules) s =
     (if matchPattern (Layer (fst s pkg)) (From rule) \<and> matchPattern extPkg (To rule)
      then (if \<not> Allow rule
            then printf (ExternalViolation (Path (fst s pkg)) (Layer (fst s pkg)) extPkg) s
            else s)
      else checkExternalRules pkg extPkg rules s)"

definition checkLayerDep :: "DependencyRule list \<Rightarrow> ref \<Rightarrow> state \<Rightarrow> string \<Rightarrow> state" where
  \<comment> \<open>the body of the loop over \<open>pkg.LayerDeps\<close>\<close>
  "checkLayerDep rules pkg s layer =
     (let s' = checkLayerRules pkg layer rules s
      in printf (DebugLayerDeps (Path (fst s' pkg)) (Layer (fst s' pkg)) layer) s')"

definition checkExternalDep :: "DependencyRule list \<Rightarrow> ref \<Rightarrow> state \<Rightarrow> string \<Rightarrow> state" where
  \<comment> \<open>the body of the loop over \<open>pkg.ExternalDeps\<close>\<close>
  "checkExternalDep rules pkg s extPkg = checkExternalRules pkg extPkg rules s"

definition checkPackage :: "DependencyRule list \<Rightarrow> state \<Rightarrow> ref \<Rightarrow> state" where
  "checkPackage rules s pkg =
     (let s1 = foldl (checkLayerDep rules pkg) s (map fst (LayerDeps (fst s pkg)))
      in foldl (checkExternalDep rules pkg) s1 (map fst (ExternalDeps (fst s1 pkg))))"

definition checkDependencies :: "packages \<Rightarrow> Config \<Rightarrow> state \<Rightarrow> state" where
  "checkDependencies packages config s =
     foldl (\<lambda>s (key, pkg). checkPackage (DependencyRules config) s pkg) s packages"

section \<open>Command line\<close>

text \<open>
  \<open>flag.String(name, default, usage)\<close> followed by \<open>flag.Parse()\<close> yields the value
  given on the command line, or the default when the flag is absent. Reading the
  configuration file and walking the project are input/output; \<open>main\<close> takes them as
  the parameters \<open>loadConfig\<close> and \<open>parseProject\<close>, each returning its error message
  on the left. \<open>parseProject\<close> also hands back the lines printed during the walk.
  \<open>log.Fatal\<close> writes its message and ends the process with status 1.
\<close>

record flags =
  projectRootFlag :: "string option"
  configFlag :: "string option"

definition flagString :: "string option \<Rightarrow> string \<Rightarrow> string" where
  "flagString given dflt = (case given of Some v \<Rightarrow> v | None \<Rightarrow> dflt)"

datatype outcome =
    Fatal "line list" string
  | Exited "line list"

fun exitStatus :: "outcome \<Rightarrow> nat" where
  "exitStatus (Fatal out msg) = 1"
| "exitStatus (Exited out) = 0"

definition usageError :: string where
  "usageError = ''Both project-root and config must be specified''"

definition main ::
  "(string \<Rightarrow> string + Config) \<Rightarrow>
   (string \<Rightarrow> Config \<Rightarrow> line list \<times> (string + packages \<times> heap)) \<Rightarrow> flags \<Rightarrow> outcome" where
  "main loadConfig parseProject args =
     (let projectRoot = flagString (projectRootFlag args) [];
          configPath = flagString (configFlag args) ''config.yaml''
      in if projectRoot = [] \<or> configPath = [] then Fatal [] usageError
         else (case loadConfig configPath of
                 Inl err \<Rightarrow> Fatal [] (''Failed to load config: '' @ err)
               | Inr config \<Rightarrow>
                   (case parseProject projectRoot config of
                      (out, Inl err) \<Rightarrow> Fatal out (''Failed to parse project: '' @ err)
                    | (out, Inr (packages, h)) \<Rightarrow>
                        Exited (snd (checkDependencies packages config
                                       (analyzePackages packages config (h, out)))))))"

section \<open>The shipped configuration\<close>

text \<open>\<open>config.yaml\<close>, with the layers in the order of the file.\<close>

definition config_yaml :: Config where
  "config_yaml =
     \<lparr>Layers =
        [(''common'', \<lparr>Paths = [''**/common/**'']\<rparr>),
         (''generated'', \<lparr>Paths = [''**/protogen/**'']\<rparr>),
         (''domain'', \<lparr>Paths = [''**/domain/**'', ''**/domain/**/service/**'']\<rparr>),
         (''application'', \<lparr>Paths = [''**/app/**'', ''**/service/**'', ''**/app/**/service/**'']\<rparr>),
         (''interfaces'', \<lparr>Paths = [''**/api/**'', ''**/ports/**'']\<rparr>),
         (''infrastructure'', \<lparr>Paths = [''**/adapters/**'']\<rparr>)],
      DependencyRules =
        [\<lparr>From = ''unknown'', To = ''unknown'', Allow = True\<rparr>,
         \<lparr>From = ''domain'', To = ''domain'', Allow = True\<rparr>,
         \<lparr>From = ''domain'', To = ''*'', Allow = False\<rparr>,
         \<lparr>From = ''application'', To = ''infrastructure'', Allow = False\<rparr>,
         \<lparr>From = ''application'', To = ''mycompany.org/xx/moduleA'', Allow = True\<rparr>,
         \<lparr>From = ''domain'', To = ''mycompany.org/xx/moduleB'', Allow = False\<rparr>,
         \<lparr>From = ''infrastructure'', To = ''cloud.google.com/go/firestore'', Allow = True\<rparr>,
         \<lparr>From = ''*'', To = ''cloud.google.com/go/firestore'', Allow = False\<rparr>],
      ExcludeDirs = [''**/test'', ''**/tools'', ''**/examples'', ''**/vendor'']\<rparr>"

section \<open>Full-glob matching\<close>

text \<open>
  Modelled from the spec: \<open>doublestar.Match\<close>, the full-glob matcher of the library
  \<open>github.com/bmatcuk/doublestar/v4\<close>, whose code is not part of this repository. The
  spec (4.1) gives it as anchored, case-sensitive matching of a slash-separated path,
  where \<open>*\<close> is any run of characters within a path segment and \<open>**\<close> any run of
  characters across segment boundaries, including zero segments. Only literal
  characters, \<open>*\<close> and \<open>**\<close> are covered. The theorems about the classifier hold for
  every matcher; \<open>globMatch\<close> serves where a concrete one is needed.
\<close>

function globMatch :: "string \<Rightarrow> string \<Rightarrow> bool" where
  "globMatch [] name = (name = [])"
| "globMatch (c # pat) name =
     (if c = CHR ''*'' then
        (if take 2 pat = ''*/'' then
           (globMatch (drop 2 pat) name \<or>
            (if CHR ''/'' \<in> set name
             then globMatch (c # pat) (tl (dropWhile (\<lambda>x. x \<noteq> CHR ''/'') name))
             else False))
         else if take 1 pat = ''*'' then
           (globMatch (drop 1 pat) name \<or>
            (if name \<noteq> [] then globMatch (c # pat) (tl name) else False))
         else
           (globMatch pat name \<or>
            (if name \<noteq> [] \<and> hd name \<noteq> CHR ''/'' then globMatch (c # pat) (tl name) else False)))
      else (case name of
              [] \<Rightarrow> False
            | n # name' \<Rightarrow> if n = c then globMatch pat name' else False))"
  by pat_completeness auto
termination
proof (relation "measure (\<lambda>(pat, name). length pat + length name)", goal_cases)
  case 1
  show ?case by simp
next
  case (2 c pat name)
  then have "length (take 2 pat) = 2" by simp
  then show ?case by simp
next
  case (3 c pat name)
  have "length (dropWhile (\<lambda>x. x \<noteq> CHR ''/'') name) \<le> length name"
    by (rule length_dropWhile_le)
  moreover have "dropWhile (\<lambda>x. x \<noteq> CHR ''/'') name \<noteq> []"
    using 3 by simp
  ultimately show ?case
    by (cases "dropWhile (\<lambda>x. x \<noteq> CHR ''/'') name") auto
next
  case (4 c pat name)
  then have "pat \<noteq> []" by auto
  then show ?case by (cases pat) auto
next
  case (5 c pat name)
  then show ?case by (cases name) auto
next
  case (6 c pat name)
  then show ?case by simp
next
  case (7 c pat name)
  then show ?case by (cases name) auto
next
  case (8 c pat name n name')
  then show ?case by simp
qed

section \<open>The governing rule of an edge\<close>

text \<open>
  The spec (4.4) calls governing rule of an edge the first rule, in declaration order,
  whose \<open>From\<close> matches the unit's layer and whose \<open>To\<close> matches the dependency. This
  definition follows those words; the loops of \<open>checkDependencies\<close> are compared with it.
\<close>

definition governing :: "DependencyRule list \<Rightarrow> string \<Rightarrow> string \<Rightarrow> DependencyRule option" where
  "governing rules layer dep =
     find (\<lambda>rule. matchPattern layer (From rule) \<and> matchPattern dep (To rule)) rules"

text \<open>
  The lines one unit contributes to the output, written with the governing rule: for
  each layer dependency the verdict and the debug line, then for each external
  dependency the verdict.
\<close>

definition layerEdgeLines :: "DependencyRule list \<Rightarrow> PackageInfo \<Rightarrow> string \<Rightarrow> line list" where
  "layerEdgeLines rules unit dep =
     (case governing rules (Layer unit) dep of
        Some rule \<Rightarrow> if Allow rule then [] else [LayerViolation (Path unit) (Layer unit) dep]
      | None \<Rightarrow> [])
     @ [DebugLayerDeps (Path unit) (Layer unit) dep]"

definition externalEdgeLines :: "DependencyRule list \<Rightarrow> PackageInfo \<Rightarrow> string \<Rightarrow> line list" where
  "externalEdgeLines rules unit dep =
     (case governing rules (Layer unit) dep of
        Some rule \<Rightarrow> if Allow rule then [] else [ExternalViolation (Path unit) (Layer unit) dep]
      | None \<Rightarrow> [])"

definition unitLines :: "DependencyRule list \<Rightarrow> PackageInfo \<Rightarrow> line list" where
  "unitLines rules unit =
     concat (map (layerEdgeLines rules unit) (map fst (LayerDeps unit))) @
     concat (map (externalEdgeLines rules unit) (map fst (ExternalDeps unit)))"

section \<open>An example project\<close>

text \<open>
  The end-to-end scenario of the spec (8), with two more imports: module \<open>m\<close> with the
  units \<open>m/domain\<close> (layer \<open>domain\<close>, at address 0) and \<open>m/infra\<close> (layer
  \<open>infrastructure\<close>, at address 1); \<open>m/domain\<close> imports \<open>m/infra\<close>, the external
  package \<open>fmt\<close> and \<open>m/missing\<close>, which no unit of the table has as its path.
\<close>

definition example_packages :: packages where
  "example_packages = [(''m/domain'', 0), (''m/infra'', 1)]"

definition example_heap :: heap where
  "example_heap =
     (\<lambda>_. \<lparr>Path = [], Module = [], Layer = [], Imports = [], LayerDeps = [], ExternalDeps = []\<rparr>)
       (0 := \<lparr>Path = ''m/domain'', Module = ''m'', Layer = ''domain'',
              Imports = [''m/infra'', ''fmt'', ''m/missing''], LayerDeps = [], ExternalDeps = []\<rparr>,
        1 := \<lparr>Path = ''m/infra'', Module = ''m'', Layer = ''infrastructure'',
              Imports = [], LayerDeps = [], ExternalDeps = []\<rparr>)"

definition example_analyzed :: heap where
  "example_analyzed = fst (analyzePackages example_packages config_yaml (example_heap, []))"

section \<open>Properties of the rule-pattern matcher\<close>

lemma HasPrefix_iff_prefix: "HasPrefix s pre = prefix pre s"
  by (auto simp: HasPrefix_def prefix_def min_def dest: arg_cong [where f = length])
    (metis append_eq_conv_conj)

lemma Split_nonempty: "Split s sep \<noteq> []"
  by (induction s) (auto split: list.splits)

lemma Split_first: "Split s sep ! 0 = takeWhile (\<lambda>c. c \<noteq> sep) s"
  by (induction s) (auto simp: Split_nonempty split: list.splits)

lemma takeWhile_before_first: "x \<notin> set pre \<Longrightarrow> takeWhile (\<lambda>c. c \<noteq> x) (pre @ x # rest) = pre"
  by (induction pre) auto

lemma matchPattern_no_star: "CHR ''*'' \<notin> set p \<Longrightarrow> matchPattern c p = (c = p)"
  by (simp add: matchPattern_def Contains_def)

lemma matchPattern_star:
  "CHR ''*'' \<in> set p \<Longrightarrow> matchPattern c p = prefix (takeWhile (\<lambda>x. x \<noteq> CHR ''*'') p) c"
  by (simp add: matchPattern_def Contains_def Split_first HasPrefix_iff_prefix)


text \<open>
  Claim C2. A rule pattern \<open>p\<close> without \<open>*\<close> matches a candidate \<open>c\<close> exactly when
  \<open>c = p\<close>. A rule pattern with a \<open>*\<close>, written \<open>pre @ * # rest\<close> with no \<open>*\<close> in
  \<open>pre\<close>, matches \<open>c\<close> exactly when \<open>pre\<close> is a prefix of \<open>c\<close>: whatever follows the first
  \<open>*\<close> plays no part. In particular \<open>app*\<close> matches \<open>application\<close>.
\<close>

theorem matchPattern_exact_or_prefix:
  "(CHR ''*'' \<notin> set p \<longrightarrow> matchPattern c p = (c = p)) \<and>
   (CHR ''*'' \<notin> set pre \<longrightarrow> matchPattern c (pre @ CHR ''*'' # rest) = prefix pre c) \<and>
   matchPattern ''application'' ''app*''"
proof (intro conjI impI)
  assume "CHR ''*'' \<notin> set p"
  then show "matchPattern c p = (c = p)" by (rule matchPattern_no_star)
next
  assume "CHR ''*'' \<notin> set pre"
  then show "matchPattern c (pre @ CHR ''*'' # rest) = prefix pre c"
    by (simp add: matchPattern_star takeWhile_before_first)
next
  show "matchPattern ''application'' ''app*''"
    by (simp add: matchPattern_def Contains_def HasPrefix_def)
qed

theorem matchPattern_exact_or_prefix_witness:
  "CHR ''*'' \<notin> set ''domain'' \<and>
   matchPattern ''application'' ''domain'' = (''application'' = ''domain'') \<and>
   CHR ''*'' \<notin> set ''app'' \<and>
   matchPattern ''application'' (''app'' @ CHR ''*'' # ''/x*y'') = prefix ''app'' ''application''"
  using matchPattern_exact_or_prefix [of "''domain''" "''application''" "''app''" "''/x*y''"]
  by simp



section \<open>Properties of the layer classifier\<close>

lemma matchPaths_iff: "matchPaths Match name paths = (\<exists>p\<in>set paths. Match p name)"
  by (induction paths) auto

lemma matchLayers_None_iff:
  "matchLayers Match name ls = None \<longleftrightarrow> (\<forall>(l, lc)\<in>set ls. \<forall>p\<in>set (Paths lc). \<not> Match p name)"
proof (induction ls)
  case Nil
  show ?case by simp
next
  case (Cons x ls)
  obtain l lc where x: "x = (l, lc)" by (cases x)
  show ?case using Cons.IH by (auto simp: x matchPaths_iff)
qed

lemma matchLayers_first:
  "\<forall>(l, lc)\<in>set before. \<forall>p\<in>set (Paths lc). \<not> Match p name \<Longrightarrow>
   \<exists>p\<in>set (Paths layerConfig). Match p name \<Longrightarrow>
   matchLayers Match name (before @ (layer, layerConfig) # rest) = Some (layer, [DebugInLayer name layer])"
  by (induction before) (auto simp: matchPaths_iff)

lemma matchLayers_Some:
  "matchLayers Match name ls = Some r \<Longrightarrow>
   \<exists>lc. (fst r, lc) \<in> set ls \<and> (\<exists>p\<in>set (Paths lc). Match p name) \<and> snd r = [DebugInLayer name (fst r)]"
proof (induction ls)
  case Nil
  then show ?case by simp
next
  case (Cons x ls)
  obtain l lc where x: "x = (l, lc)" by (cases x)
  show ?case
  proof (cases "matchPaths Match name (Paths lc)")
    case True
    with Cons.prems have "r = (l, [DebugInLayer name l])" by (simp add: x)
    with True show ?thesis by (auto simp: x matchPaths_iff)
  next
    case False
    with Cons.prems have "matchLayers Match name ls = Some r" by (simp add: x)
    from Cons.IH [OF this] show ?thesis by auto
  qed
qed

lemma matchLayers_order:
  assumes same: "set ls1 = set ls2"
    and one: "\<forall>(l1, c1)\<in>set ls1. \<forall>(l2, c2)\<in>set ls1.
        (\<exists>p\<in>set (Paths c1). Match p name) \<and> (\<exists>p\<in>set (Paths c2). Match p name) \<longrightarrow> l1 = l2"
  shows "matchLayers Match name ls1 = matchLayers Match name ls2"
proof (cases "matchLayers Match name ls1")
  case None
  then have "matchLayers Match name ls2 = None"
    using same by (simp add: matchLayers_None_iff)
  with None show ?thesis by simp
next
  case (Some r1)
  from matchLayers_Some [OF Some] obtain c1 where
    r1: "(fst r1, c1) \<in> set ls1" "\<exists>p\<in>set (Paths c1). Match p name" "snd r1 = [DebugInLayer name (fst r1)]"
    by blast
  have "matchLayers Match name ls2 \<noteq> None"
    using r1 same by (auto simp: matchLayers_None_iff)
  then obtain r2 where Some2: "matchLayers Match name ls2 = Some r2" by auto
  from matchLayers_Some [OF Some2] obtain c2 where
    r2: "(fst r2, c2) \<in> set ls2" "\<exists>p\<in>set (Paths c2). Match p name" "snd r2 = [DebugInLayer name (fst r2)]"
    by blast
  have "fst r1 = fst r2"
    using one r1(1,2) r2(1,2) same by blast
  with r1(3) r2(3) have "r1 = r2" by (simp add: prod_eq_iff)
  with Some Some2 show ?thesis by simp
qed

text \<open>
  Claim C3, as the code has it. The classifier tests the unit's module-qualified
  package path \<open>pkgPath\<close>, with the platform's separators turned into slashes, against
  the patterns of each configured layer, in the order the layers are visited, and
  returns the first layer one of whose patterns matches, printing one debug line. The
  module-relative path \<open>relPath\<close> plays no part in the match.
\<close>

theorem getLayerForPackage_first_match:
  assumes "Layers config = before @ (layer, layerConfig) # rest"
    and "\<forall>(l, lc)\<in>set before. \<forall>p\<in>set (Paths lc). \<not> Match p (ToSlash sep pkgPath)"
    and "\<exists>p\<in>set (Paths layerConfig). Match p (ToSlash sep pkgPath)"
  shows "getLayerForPackage Match sep pkgPath relPath config
           = (layer, [DebugInLayer (ToSlash sep pkgPath) layer])"
  using matchLayers_first [where Match = Match and name = "ToSlash sep pkgPath", OF assms(2,3)] assms(1)
  by (simp add: getLayerForPackage_def)

theorem getLayerForPackage_first_match_witness:
  "getLayerForPackage globMatch (CHR ''/'') (pkgPathOf ''m'' ''internal/app/query'') ''internal/app/query'' config_yaml
     = (''application'', [DebugInLayer ''m/internal/app/query'' ''application''])"
proof -
  let ?before = "[(''common'', \<lparr>Paths = [''**/common/**'']\<rparr>),
         (''generated'', \<lparr>Paths = [''**/protogen/**'']\<rparr>),
         (''domain'', \<lparr>Paths = [''**/domain/**'', ''**/domain/**/service/**'']\<rparr>)]"
  let ?lc = "\<lparr>Paths = [''**/app/**'', ''**/service/**'', ''**/app/**/service/**'']\<rparr>"
  let ?rest = "[(''interfaces'', \<lparr>Paths = [''**/api/**'', ''**/ports/**'']\<rparr>),
         (''infrastructure'', \<lparr>Paths = [''**/adapters/**'']\<rparr>)]"
  have l: "Layers config_yaml = ?before @ (''application'', ?lc) # ?rest"
    by (simp add: config_yaml_def)
  have b: "\<forall>(l, lc)\<in>set ?before. \<forall>p\<in>set (Paths lc).
      \<not> globMatch p (ToSlash (CHR ''/'') (pkgPathOf ''m'' ''internal/app/query''))"
    by (simp add: ToSlash_def pkgPathOf_def)
  have m: "\<exists>p\<in>set (Paths ?lc). globMatch p (ToSlash (CHR ''/'') (pkgPathOf ''m'' ''internal/app/query''))"
    by (simp add: ToSlash_def pkgPathOf_def)
  show ?thesis
    using getLayerForPackage_first_match [where Match = globMatch and sep = "CHR ''/''"
        and pkgPath = "pkgPathOf ''m'' ''internal/app/query''" and relPath = "''internal/app/query''", OF l b m]
    by (simp add: ToSlash_def pkgPathOf_def)
qed

text \<open>
  Claim C3, as the spec states it, fails. The unit of module \<open>m\<close> in directory
  \<open>domain\<close> has the module-relative path \<open>domain\<close>, which the pattern \<open>domain\<close> of the
  layer \<open>domain\<close> matches; the classifier tests \<open>m/domain\<close> instead, finds no layer and
  answers \<open>unknown\<close>.
\<close>

theorem getLayerForPackage_relPath_counterexample:
  "globMatch ''domain'' ''domain'' \<and>
   getLayerForPackage globMatch (CHR ''/'') (pkgPathOf ''m'' ''domain'') ''domain''
     \<lparr>Layers = [(''domain'', \<lparr>Paths = [''domain'']\<rparr>)], DependencyRules = [], ExcludeDirs = []\<rparr>
     = (''unknown'', [WarnUnknownLayer ''m/domain'']) \<and>
   Layer (fst (newPackageInfo globMatch (CHR ''/'') ''m'' ''domain''
     \<lparr>Layers = [(''domain'', \<lparr>Paths = [''domain'']\<rparr>)], DependencyRules = [], ExcludeDirs = []\<rparr>))
     = ''unknown''"
  by (simp add: newPackageInfo_def getLayerForPackage_def ToSlash_def pkgPathOf_def layerUnknown_def Let_def)

text \<open>
  Claim C4. When no pattern of any configured layer matches the unit's path, the
  classifier answers \<open>root\<close> if the module-relative path is \<open>.\<close>, which is how
  \<open>filepath.Rel\<close> denotes the module root itself, and prints nothing; otherwise it
  answers \<open>unknown\<close> and prints one warning naming the unit.
\<close>

theorem getLayerForPackage_unmatched:
  assumes "\<forall>(l, lc)\<in>set (Layers config). \<forall>p\<in>set (Paths lc). \<not> Match p (ToSlash sep pkgPath)"
  shows "(relPath = ''.'' \<longrightarrow>
            getLayerForPackage Match sep pkgPath relPath config = (''root'', [])) \<and>
         (relPath \<noteq> ''.'' \<longrightarrow>
            getLayerForPackage Match sep pkgPath relPath config
              = (''unknown'', [WarnUnknownLayer (ToSlash sep pkgPath)]))"
  using assms matchLayers_None_iff [of Match "ToSlash sep pkgPath" "Layers config"]
  by (simp add: getLayerForPackage_def layerRoot_def layerUnknown_def)

theorem getLayerForPackage_unmatched_witness:
  "getLayerForPackage globMatch (CHR ''/'') ''m/.'' ''.'' config_yaml = (''root'', []) \<and>
   getLayerForPackage globMatch (CHR ''/'') ''m/cmd/tool'' ''cmd/tool'' config_yaml
     = (''unknown'', [WarnUnknownLayer ''m/cmd/tool''])"
proof -
  have a: "\<forall>(l, lc)\<in>set (Layers config_yaml). \<forall>p\<in>set (Paths lc). \<not> globMatch p (ToSlash (CHR ''/'') ''m/.'')"
    by (simp add: config_yaml_def ToSlash_def)
  have b: "\<forall>(l, lc)\<in>set (Layers config_yaml). \<forall>p\<in>set (Paths lc). \<not> globMatch p (ToSlash (CHR ''/'') ''m/cmd/tool'')"
    by (simp add: config_yaml_def ToSlash_def)
  show ?thesis
    using getLayerForPackage_unmatched [where Match = globMatch and sep = "CHR ''/''"
        and pkgPath = "''m/.''" and relPath = "''.''", OF a]
      getLayerForPackage_unmatched [where Match = globMatch and sep = "CHR ''/''"
        and pkgPath = "''m/cmd/tool''" and relPath = "''cmd/tool''", OF b]
    by (simp add: ToSlash_def)
qed

text \<open>
  Claim C8. Take two enumerations \<open>ls1\<close> and \<open>ls2\<close> of the same layer table, that is,
  two orders in which a run may visit the layers. If the patterns matching the unit's
  path all belong to one layer (or to none), the classifier returns the same layer and
  prints the same lines under both orders.
\<close>

theorem getLayerForPackage_order_independent:
  assumes "set ls1 = set ls2"
    and "\<forall>(l1, c1)\<in>set ls1. \<forall>(l2, c2)\<in>set ls1.
        (\<exists>p\<in>set (Paths c1). Match p (ToSlash sep pkgPath)) \<and>
        (\<exists>p\<in>set (Paths c2). Match p (ToSlash sep pkgPath)) \<longrightarrow> l1 = l2"
  shows "getLayerForPackage Match sep pkgPath relPath (config\<lparr>Layers := ls1\<rparr>)
           = getLayerForPackage Match sep pkgPath relPath (config\<lparr>Layers := ls2\<rparr>)"
  using matchLayers_order [where Match = Match and name = "ToSlash sep pkgPath", OF assms]
  by (simp add: getLayerForPackage_def)

theorem getLayerForPackage_order_independent_witness:
  "getLayerForPackage globMatch (CHR ''/'') ''m/internal/domain/model'' ''internal/domain/model''
     (config_yaml\<lparr>Layers := Layers config_yaml\<rparr>)
   = getLayerForPackage globMatch (CHR ''/'') ''m/internal/domain/model'' ''internal/domain/model''
     (config_yaml\<lparr>Layers := rev (Layers config_yaml)\<rparr>) \<and>
   fst (getLayerForPackage globMatch (CHR ''/'') ''m/internal/domain/model'' ''internal/domain/model''
     (config_yaml\<lparr>Layers := rev (Layers config_yaml)\<rparr>)) = ''domain''"
proof -
  have same: "set (Layers config_yaml) = set (rev (Layers config_yaml))" by simp
  have one: "\<forall>(l1, c1)\<in>set (Layers config_yaml). \<forall>(l2, c2)\<in>set (Layers config_yaml).
        (\<exists>p\<in>set (Paths c1). globMatch p (ToSlash (CHR ''/'') ''m/internal/domain/model'')) \<and>
        (\<exists>p\<in>set (Paths c2). globMatch p (ToSlash (CHR ''/'') ''m/internal/domain/model'')) \<longrightarrow> l1 = l2"
    by (simp add: config_yaml_def ToSlash_def)
  have "fst (getLayerForPackage globMatch (CHR ''/'') ''m/internal/domain/model'' ''internal/domain/model''
     (config_yaml\<lparr>Layers := rev (Layers config_yaml)\<rparr>)) = ''domain''"
    by (simp add: getLayerForPackage_def config_yaml_def ToSlash_def)
  then show ?thesis
    using getLayerForPackage_order_independent [where Match = globMatch and sep = "CHR ''/''"
        and pkgPath = "''m/internal/domain/model''" and relPath = "''internal/domain/model''"
        and config = config_yaml, OF same one]
    by simp
qed

section \<open>Properties of the import graph builder\<close>

text \<open>
  Whether an import is external depends only on the set of module prefixes, not on the
  order in which the loop over \<open>modulePrefixes\<close> visits them.
\<close>

lemma isExternal_iff: "isExternal imp ms \<longleftrightarrow> (\<forall>m\<in>fst ` set ms. \<not> HasPrefix imp m)"
  by (induction imp ms rule: isExternal.induct) auto

lemma foldl_modulePrefixes_keys:
  "fst ` set (foldl (\<lambda>m (key, pkg). AList.update (Module (h pkg)) True m) m0 ps)
     = fst ` set m0 \<union> (\<lambda>(key, pkg). Module (h pkg)) ` set ps"
proof (induction ps arbitrary: m0)
  case Nil
  show ?case by simp
next
  case (Cons x ps)
  obtain key pkg where x: "x = (key, pkg)" by (cases x)
  show ?case
    unfolding x foldl_Cons prod.case Cons.IH dom_update by auto
qed

lemma modulePrefixesOf_keys:
  "fst ` set (modulePrefixesOf ps h) = (\<lambda>(key, pkg). Module (h pkg)) ` set ps"
  by (simp add: modulePrefixesOf_def foldl_modulePrefixes_keys)

lemma isExternal_modulePrefixesOf:
  "isExternal imp (modulePrefixesOf ps h) \<longleftrightarrow> (\<forall>(key, pkg)\<in>set ps. \<not> HasPrefix imp (Module (h pkg)))"
  by (auto simp: isExternal_iff modulePrefixesOf_keys)

lemma known_prefix_modulePrefixesOf:
  "\<not> isExternal imp (modulePrefixesOf ps h) \<longleftrightarrow> (\<exists>(key, pkg)\<in>set ps. HasPrefix imp (Module (h pkg)))"
  by (auto simp: isExternal_modulePrefixesOf)

text \<open>
  \<open>analyzePackages\<close> writes the two dependency sets only. The layer it reads through
  the pointer of an imported unit is the one the classifier assigned.
\<close>

lemma analyzeImport_fields:
  "Path (fst (analyzeImport ms pk pkg s imp) a) = Path (fst s a)"
  "Module (fst (analyzeImport ms pk pkg s imp) a) = Module (fst s a)"
  "Layer (fst (analyzeImport ms pk pkg s imp) a) = Layer (fst s a)"
  "Imports (fst (analyzeImport ms pk pkg s imp) a) = Imports (fst s a)"
  by (simp_all add: analyzeImport_def Let_def printf_def split: option.splits)

lemma analyzeImport_ExternalDeps:
  "fst ` set (ExternalDeps (fst (analyzeImport ms pk pkg s imp) a))
     = fst ` set (ExternalDeps (fst s a)) \<union> (if a = pkg \<and> isExternal imp ms then {imp} else {})"
  by (simp add: analyzeImport_def Let_def printf_def dom_update split: option.splits)

lemma analyzeImport_LayerDeps:
  "fst ` set (LayerDeps (fst (analyzeImport ms pk pkg s imp) a))
     = fst ` set (LayerDeps (fst s a)) \<union>
       (if a = pkg \<and> \<not> isExternal imp ms
        then (case map_of pk imp of Some b \<Rightarrow> {Layer (fst s b)} | None \<Rightarrow> {}) else {})"
  by (simp add: analyzeImport_def Let_def printf_def dom_update split: option.splits)

lemma imports_fields:
  "Path (fst (foldl (analyzeImport ms pk pkg) s imps) a) = Path (fst s a)"
  "Module (fst (foldl (analyzeImport ms pk pkg) s imps) a) = Module (fst s a)"
  "Layer (fst (foldl (analyzeImport ms pk pkg) s imps) a) = Layer (fst s a)"
  "Imports (fst (foldl (analyzeImport ms pk pkg) s imps) a) = Imports (fst s a)"
  by (induction imps arbitrary: s; simp add: analyzeImport_fields)+

text \<open>
  The keys of the two dependency sets after the loop over the imports of one unit, and
  after the loop over all units.
\<close>

lemma imports_ExternalDeps:
  "fst ` set (ExternalDeps (fst (foldl (analyzeImport ms pk pkg) s imps) a))
     = fst ` set (ExternalDeps (fst s a)) \<union>
       (if a = pkg then {imp \<in> set imps. isExternal imp ms} else {})"
  by (induction imps arbitrary: s) (auto simp: analyzeImport_ExternalDeps)

lemma imports_LayerDeps:
  "fst ` set (LayerDeps (fst (foldl (analyzeImport ms pk pkg) s imps) a))
     = fst ` set (LayerDeps (fst s a)) \<union>
       (if a = pkg
        then {Layer (fst s b) | imp b. imp \<in> set imps \<and> \<not> isExternal imp ms \<and> map_of pk imp = Some b}
        else {})"
proof (induction imps arbitrary: s)
  case Nil
  show ?case by simp
next
  case (Cons i imps)
  show ?case
    unfolding foldl_Cons Cons.IH analyzeImport_LayerDeps analyzeImport_fields
    by (auto split: option.splits)
qed

lemma analyzePackage_fields:
  "Path (fst (analyzePackage ms pk s pkg) a) = Path (fst s a)"
  "Module (fst (analyzePackage ms pk s pkg) a) = Module (fst s a)"
  "Layer (fst (analyzePackage ms pk s pkg) a) = Layer (fst s a)"
  "Imports (fst (analyzePackage ms pk s pkg) a) = Imports (fst s a)"
  by (simp_all add: analyzePackage_def imports_fields)

lemma packages_fields:
  "Path (fst (foldl (\<lambda>s (key, pkg). analyzePackage ms pk s pkg) s ps) a) = Path (fst s a)"
  "Module (fst (foldl (\<lambda>s (key, pkg). analyzePackage ms pk s pkg) s ps) a) = Module (fst s a)"
  "Layer (fst (foldl (\<lambda>s (key, pkg). analyzePackage ms pk s pkg) s ps) a) = Layer (fst s a)"
  "Imports (fst (foldl (\<lambda>s (key, pkg). analyzePackage ms pk s pkg) s ps) a) = Imports (fst s a)"
  by (induction ps arbitrary: s; simp add: analyzePackage_fields split_beta)+

lemma packages_ExternalDeps:
  "fst ` set (ExternalDeps (fst (foldl (\<lambda>s (key, pkg). analyzePackage ms pk s pkg) s ps) a))
     = fst ` set (ExternalDeps (fst s a)) \<union>
       (if a \<in> snd ` set ps then {imp \<in> set (Imports (fst s a)). isExternal imp ms} else {})"
proof (induction ps arbitrary: s)
  case Nil
  show ?case by simp
next
  case (Cons x ps)
  obtain key pkg where x: "x = (key, pkg)" by (cases x)
  show ?case
    unfolding x foldl_Cons prod.case Cons.IH analyzePackage_fields
    by (auto simp: analyzePackage_def imports_ExternalDeps)
qed

lemma packages_LayerDeps:
  "fst ` set (LayerDeps (fst (foldl (\<lambda>s (key, pkg). analyzePackage ms pk s pkg) s ps) a))
     = fst ` set (LayerDeps (fst s a)) \<union>
       (if a \<in> snd ` set ps
        then {Layer (fst s b) | imp b. imp \<in> set (Imports (fst s a)) \<and> \<not> isExternal imp ms \<and> map_of pk imp = Some b}
        else {})"
proof (induction ps arbitrary: s)
  case Nil
  show ?case by simp
next
  case (Cons x ps)
  obtain key pkg where x: "x = (key, pkg)" by (cases x)
  show ?case
    unfolding x foldl_Cons prod.case Cons.IH analyzePackage_fields
    by (auto simp: analyzePackage_def imports_LayerDeps)
qed

text \<open>Graph building on the example project.\<close>

lemmas example_defs = example_packages_def example_heap_def analyzePackages_def analyzePackage_def
  analyzeImport_def modulePrefixesOf_def HasPrefix_def printf_def layerUnknown_def Let_def

lemma example_analyzePackages:
  "analyzePackages example_packages config_yaml (example_heap, [])
     = (example_heap(0 := (example_heap 0)\<lparr>LayerDeps := [(''infrastructure'', True)],
          ExternalDeps := [(''fmt'', True)]\<rparr>), [])"
  by (simp add: example_defs fun_eq_iff)

text \<open>
  Claim C5. Let \<open>imp\<close> be a raw import of a unit of the table. If \<open>imp\<close> starts with no
  module prefix of any discovered unit, then after graph building \<open>imp\<close> itself is a
  key of the unit's external-dependency set, and the step that handles \<open>imp\<close> leaves
  every layer-dependency set as it was. If \<open>imp\<close> starts with a known module prefix
  and was not in the unit's external-dependency set before, it is not in it afterwards.
  Every layer in the unit's layer-dependency set afterwards was there before or is the
  layer of a unit of the table that one of the unit's imports with a known module
  prefix names.
\<close>

theorem analyzePackages_import_partition:
  assumes "(key, pkg) \<in> set packages" and "imp \<in> set (Imports (h pkg))"
  shows "((\<forall>(k, p)\<in>set packages. \<not> HasPrefix imp (Module (h p))) \<longrightarrow>
            imp \<in> fst ` set (ExternalDeps (fst (analyzePackages packages config (h, out)) pkg)) \<and>
            (\<forall>s a. LayerDeps (fst (analyzeImport (modulePrefixesOf packages h) packages pkg s imp) a)
                     = LayerDeps (fst s a))) \<and>
         ((\<exists>(k, p)\<in>set packages. HasPrefix imp (Module (h p))) \<and>
          imp \<notin> fst ` set (ExternalDeps (h pkg)) \<longrightarrow>
            imp \<notin> fst ` set (ExternalDeps (fst (analyzePackages packages config (h, out)) pkg))) \<and>
         (\<forall>L\<in>fst ` set (LayerDeps (fst (analyzePackages packages config (h, out)) pkg)).
            L \<in> fst ` set (LayerDeps (h pkg)) \<or>
            (\<exists>imp' p'. imp' \<in> set (Imports (h pkg)) \<and>
               (\<exists>(k, p)\<in>set packages. HasPrefix imp' (Module (h p))) \<and>
               map_of packages imp' = Some p' \<and> Layer (h p') = L))"
proof (intro conjI impI ballI)
  assume ext: "\<forall>(k, p)\<in>set packages. \<not> HasPrefix imp (Module (h p))"
  then have e: "isExternal imp (modulePrefixesOf packages h)"
    by (simp add: isExternal_modulePrefixesOf)
  have "pkg \<in> snd ` set packages"
    using assms(1) by force
  with e assms(2) show "imp \<in> fst ` set (ExternalDeps (fst (analyzePackages packages config (h, out)) pkg))"
    by (simp add: analyzePackages_def packages_ExternalDeps)
  from e show "\<forall>s a. LayerDeps (fst (analyzeImport (modulePrefixesOf packages h) packages pkg s imp) a)
                     = LayerDeps (fst s a)"
    by (simp add: analyzeImport_def)
next
  assume int: "(\<exists>(k, p)\<in>set packages. HasPrefix imp (Module (h p))) \<and>
          imp \<notin> fst ` set (ExternalDeps (h pkg))"
  then have "\<not> isExternal imp (modulePrefixesOf packages h)"
    by (simp add: known_prefix_modulePrefixesOf)
  with int show "imp \<notin> fst ` set (ExternalDeps (fst (analyzePackages packages config (h, out)) pkg))"
    by (simp add: analyzePackages_def packages_ExternalDeps)
next
  fix L
  assume "L \<in> fst ` set (LayerDeps (fst (analyzePackages packages config (h, out)) pkg))"
  then have "L \<in> fst ` set (LayerDeps (h pkg)) \<or>
     L \<in> {Layer (h b) | imp b. imp \<in> set (Imports (h pkg)) \<and>
            \<not> isExternal imp (modulePrefixesOf packages h) \<and> map_of packages imp = Some b}"
    by (simp add: analyzePackages_def packages_LayerDeps split: if_splits)
  then show "L \<in> fst ` set (LayerDeps (h pkg)) \<or>
            (\<exists>imp' p'. imp' \<in> set (Imports (h pkg)) \<and>
               (\<exists>(k, p)\<in>set packages. HasPrefix imp' (Module (h p))) \<and>
               map_of packages imp' = Some p' \<and> Layer (h p') = L)"
    by (auto simp: known_prefix_modulePrefixesOf)
qed

theorem analyzePackages_import_partition_witness:
  "''fmt'' \<in> fst ` set (ExternalDeps (fst (analyzePackages example_packages config_yaml (example_heap, [])) 0)) \<and>
   ''m/infra'' \<notin> fst ` set (ExternalDeps (fst (analyzePackages example_packages config_yaml (example_heap, [])) 0)) \<and>
   fst ` set (LayerDeps (fst (analyzePackages example_packages config_yaml (example_heap, [])) 0)) = {''infrastructure''}"
proof -
  have u: "(''m/domain'', 0) \<in> set example_packages"
    by (simp add: example_packages_def)
  have i1: "''fmt'' \<in> set (Imports (example_heap 0))" and i2: "''m/infra'' \<in> set (Imports (example_heap 0))"
    by (simp_all add: example_heap_def)
  have e1: "\<forall>(k, p)\<in>set example_packages. \<not> HasPrefix ''fmt'' (Module (example_heap p))"
    by (simp add: example_packages_def example_heap_def HasPrefix_def)
  have e2: "(\<exists>(k, p)\<in>set example_packages. HasPrefix ''m/infra'' (Module (example_heap p))) \<and>
      ''m/infra'' \<notin> fst ` set (ExternalDeps (example_heap 0))"
    by (simp add: example_packages_def example_heap_def HasPrefix_def)
  have l: "fst ` set (LayerDeps (fst (analyzePackages example_packages config_yaml (example_heap, [])) 0)) = {''infrastructure''}"
    by (simp add: example_defs)
  show ?thesis
    using analyzePackages_import_partition [where key = "''m/domain''" and pkg = 0
        and packages = example_packages and h = example_heap and imp = "''fmt''"
        and config = config_yaml and out = "[]", OF u i1]
      analyzePackages_import_partition [where key = "''m/domain''" and pkg = 0
        and packages = example_packages and h = example_heap and imp = "''m/infra''"
        and config = config_yaml and out = "[]", OF u i2] e1 e2 l
    by blast
qed

text \<open>
  Claim C6. An import that starts with a known module prefix and is not the path of
  any unit of the table changes nothing: the step that handles it returns the state
  it was given, the heap (so both dependency sets of every unit) and the printed
  lines alike. The loop over a unit's imports gives the same result with that import
  removed from the list.
\<close>

theorem analyzeImport_unresolved_internal:
  assumes "\<exists>(k, p)\<in>set packages. HasPrefix imp (Module (h p))"
    and "imp \<notin> fst ` set packages"
  shows "analyzeImport (modulePrefixesOf packages h) packages pkg s imp = s \<and>
         foldl (analyzeImport (modulePrefixesOf packages h) packages pkg) s (pre @ imp # post)
           = foldl (analyzeImport (modulePrefixesOf packages h) packages pkg) s (pre @ post)"
proof -
  have "\<not> isExternal imp (modulePrefixesOf packages h)"
    using assms(1) by (simp add: known_prefix_modulePrefixesOf)
  moreover have "map_of packages imp = None"
    using assms(2) by (simp add: map_of_eq_None_iff)
  ultimately have "\<And>s. analyzeImport (modulePrefixesOf packages h) packages pkg s imp = s"
    by (simp add: analyzeImport_def)
  then show ?thesis by simp
qed

theorem analyzeImport_unresolved_internal_witness:
  "analyzeImport (modulePrefixesOf example_packages example_heap) example_packages 0 (example_heap, []) ''m/missing''
     = (example_heap, []) \<and>
   analyzePackage (modulePrefixesOf example_packages example_heap) example_packages (example_heap, []) 0
     = foldl (analyzeImport (modulePrefixesOf example_packages example_heap) example_packages 0)
         (example_heap, []) [''m/infra'', ''fmt'']"
proof -
  have a: "\<exists>(k, p)\<in>set example_packages. HasPrefix ''m/missing'' (Module (example_heap p))"
    by (simp add: example_packages_def example_heap_def HasPrefix_def)
  have b: "''m/missing'' \<notin> fst ` set example_packages"
    by (simp add: example_packages_def)
  have c: "Imports (example_heap 0) = [''m/infra'', ''fmt''] @ ''m/missing'' # []"
    by (simp add: example_heap_def)
  show ?thesis
    using analyzeImport_unresolved_internal [where packages = example_packages and h = example_heap
        and imp = "''m/missing''" and pkg = 0 and s = "(example_heap, [])"
        and pre = "[''m/infra'', ''fmt'']" and post = "[]", OF a b] c
    by (simp add: analyzePackage_def)
qed

section \<open>Properties of the rule evaluator\<close>

lemma checkLayerRules_heap: "fst (checkLayerRules pkg layer rules s) = fst s"
  by (induction rules) (simp_all add: printf_def)

lemma checkExternalRules_heap: "fst (checkExternalRules pkg extPkg rules s) = fst s"
  by (induction rules) (simp_all add: printf_def)

lemma checkLayerDep_heap: "fst (checkLayerDep rules pkg s layer) = fst s"
  by (simp add: checkLayerDep_def Let_def printf_def checkLayerRules_heap)

lemma checkExternalDep_heap: "fst (checkExternalDep rules pkg s extPkg) = fst s"
  by (simp add: checkExternalDep_def checkExternalRules_heap)

lemma layerDeps_loop_heap: "fst (foldl (checkLayerDep rules pkg) s layers) = fst s"
  by (induction layers arbitrary: s) (simp_all add: checkLayerDep_heap)

lemma externalDeps_loop_heap: "fst (foldl (checkExternalDep rules pkg) s exts) = fst s"
  by (induction exts arbitrary: s) (simp_all add: checkExternalDep_heap)

lemma checkPackage_heap: "fst (checkPackage rules s pkg) = fst s"
  by (simp add: checkPackage_def Let_def externalDeps_loop_heap layerDeps_loop_heap)

lemma packages_loop_heap:
  "fst (foldl (\<lambda>s (key, pkg). checkPackage rules s pkg) s ps) = fst s"
  by (induction ps arbitrary: s) (simp_all add: checkPackage_heap split_beta)

text \<open>
  Claim C10. \<open>checkDependencies\<close> returns the heap it was given: for every unit the
  record behind its pointer, with the fields \<open>Path\<close>, \<open>Module\<close>, \<open>Layer\<close>,
  \<open>Imports\<close>, \<open>LayerDeps\<close> and \<open>ExternalDeps\<close>, is the same before and after,
  whatever the rules are and whatever is printed.
\<close>

theorem checkDependencies_read_only:
  "fst (checkDependencies packages config s) = fst s"
  by (simp add: checkDependencies_def packages_loop_heap)

text \<open>
  Each rule loop prints what the governing rule of the edge says, and the whole run
  prints the lines of the units one after the other.
\<close>

lemma checkLayerRules_first_match:
  assumes "\<forall>r\<in>set before. \<not> (matchPattern (Layer (fst s pkg)) (From r) \<and> matchPattern layer (To r))"
  shows "checkLayerRules pkg layer (before @ rules) s = checkLayerRules pkg layer rules s"
  using assms by (induction before) auto

lemma governing_first_match:
  assumes "\<forall>r\<in>set before. \<not> (matchPattern layer (From r) \<and> matchPattern dep (To r))"
  shows "governing (before @ rules) layer dep = governing rules layer dep"
  using assms by (induction before) (auto simp: governing_def)

lemma checkLayerRules_eq:
  "checkLayerRules pkg layer rules s =
     (fst s, snd s @ (case governing rules (Layer (fst s pkg)) layer of
        Some rule \<Rightarrow> if Allow rule then [] else [LayerViolation (Path (fst s pkg)) (Layer (fst s pkg)) layer]
      | None \<Rightarrow> []))"
  by (induction rules) (simp_all add: governing_def printf_def)

lemma checkExternalRules_eq:
  "checkExternalRules pkg extPkg rules s =
     (fst s, snd s @ (case governing rules (Layer (fst s pkg)) extPkg of
        Some rule \<Rightarrow> if Allow rule then [] else [ExternalViolation (Path (fst s pkg)) (Layer (fst s pkg)) extPkg]
      | None \<Rightarrow> []))"
  by (induction rules) (simp_all add: governing_def printf_def)

lemma checkLayerDep_eq:
  "checkLayerDep rules pkg s layer = (fst s, snd s @ layerEdgeLines rules (fst s pkg) layer)"
  by (simp add: checkLayerDep_def Let_def printf_def checkLayerRules_eq layerEdgeLines_def)

lemma checkExternalDep_eq:
  "checkExternalDep rules pkg s extPkg = (fst s, snd s @ externalEdgeLines rules (fst s pkg) extPkg)"
  by (simp add: checkExternalDep_def checkExternalRules_eq externalEdgeLines_def)

lemma layerDeps_loop_eq:
  "foldl (checkLayerDep rules pkg) s layers
     = (fst s, snd s @ concat (map (layerEdgeLines rules (fst s pkg)) layers))"
  by (induction layers arbitrary: s) (simp_all add: checkLayerDep_eq)

lemma externalDeps_loop_eq:
  "foldl (checkExternalDep rules pkg) s exts
     = (fst s, snd s @ concat (map (externalEdgeLines rules (fst s pkg)) exts))"
  by (induction exts arbitrary: s) (simp_all add: checkExternalDep_eq)

lemma checkPackage_eq:
  "checkPackage rules s pkg = (fst s, snd s @ unitLines rules (fst s pkg))"
  by (simp add: checkPackage_def Let_def layerDeps_loop_eq externalDeps_loop_eq unitLines_def)

lemma packages_loop_eq:
  "foldl (\<lambda>s (key, pkg). checkPackage rules s pkg) s ps
     = (fst s, snd s @ concat (map (\<lambda>(key, pkg). unitLines rules (fst s pkg)) ps))"
  by (induction ps arbitrary: s) (simp_all add: checkPackage_eq split_beta)

lemma checkDependencies_eq:
  "checkDependencies packages config s
     = (fst s, snd s @ concat (map (\<lambda>(key, pkg). unitLines (DependencyRules config) (fst s pkg)) packages))"
  by (simp add: checkDependencies_def packages_loop_eq)

lemma LayerViolation_in_layerEdgeLines:
  "LayerViolation p l d \<in> set (layerEdgeLines rules unit dep) \<longleftrightarrow>
     p = Path unit \<and> l = Layer unit \<and> d = dep \<and>
     (\<exists>rule. governing rules (Layer unit) dep = Some rule \<and> \<not> Allow rule)"
  by (cases "governing rules (Layer unit) dep") (auto simp: layerEdgeLines_def)

lemma LayerViolation_notin_externalEdgeLines:
  "LayerViolation p l d \<notin> set (externalEdgeLines rules unit dep)"
  by (simp add: externalEdgeLines_def split: option.splits)

lemma LayerViolation_in_unitLines:
  "LayerViolation p l d \<in> set (unitLines rules unit) \<longleftrightarrow>
     p = Path unit \<and> l = Layer unit \<and> d \<in> fst ` set (LayerDeps unit) \<and>
     (\<exists>rule. governing rules l d = Some rule \<and> \<not> Allow rule)"
proof -
  have "LayerViolation p l d \<in> set (unitLines rules unit) \<longleftrightarrow>
      (\<exists>dep\<in>fst ` set (LayerDeps unit). LayerViolation p l d \<in> set (layerEdgeLines rules unit dep))"
    by (simp add: unitLines_def LayerViolation_notin_externalEdgeLines)
  also have "\<dots> \<longleftrightarrow> p = Path unit \<and> l = Layer unit \<and> d \<in> fst ` set (LayerDeps unit) \<and>
     (\<exists>rule. governing rules l d = Some rule \<and> \<not> Allow rule)"
    unfolding LayerViolation_in_layerEdgeLines by blast
  finally show ?thesis .
qed

lemma LayerViolation_in_output:
  "LayerViolation p l d \<in> set (snd (checkDependencies packages config (h, []))) \<longleftrightarrow>
     (\<exists>(key, pkg)\<in>set packages. p = Path (h pkg) \<and> l = Layer (h pkg) \<and> d \<in> fst ` set (LayerDeps (h pkg))) \<and>
     (\<exists>rule. governing (DependencyRules config) l d = Some rule \<and> \<not> Allow rule)"
  by (auto simp: checkDependencies_eq LayerViolation_in_unitLines)

text \<open>The example project after graph building, and what the rule evaluator prints for it.\<close>

lemma example_analyzed_eq:
  "example_analyzed = example_heap(0 := (example_heap 0)\<lparr>LayerDeps := [(''infrastructure'', True)],
      ExternalDeps := [(''fmt'', True)]\<rparr>)"
  by (simp add: example_analyzed_def example_analyzePackages)

lemma matchPattern_examples:
  "matchPattern ''domain'' ''domain''" "matchPattern ''application'' ''*''"
  "\<not> matchPattern ''application'' ''domain''"
  by (simp_all add: matchPattern_def Contains_def HasPrefix_def)

text \<open>
  Claim C1. Let \<open>L\<close> be a layer in the layer-dependency set of a unit of the table.
  The run prints the line \<open>LAYER VIOLATION\<close> naming the unit's path, the unit's layer
  and \<open>L\<close> exactly when the edge has a governing rule and that rule's \<open>allow\<close> is
  false. The governing rule is the first match in declaration order: when no rule of
  \<open>before\<close> matches and \<open>rule\<close> does, the loop over \<open>before @ rule # later\<close> prints the
  violation if \<open>rule\<close> denies and nothing if it allows, whatever \<open>later\<close> holds; when no
  rule matches at all the loop prints nothing. Under the rules
  \<open>[(domain, domain, allow), (domain, *, deny)]\<close> the edge from \<open>domain\<close> to \<open>domain\<close>
  prints nothing and the edge from \<open>domain\<close> to \<open>application\<close> prints a violation.
\<close>

theorem checkDependencies_first_match_governs:
  assumes "(key, pkg) \<in> set packages" and "L \<in> fst ` set (LayerDeps (h pkg))"
  shows
   "((LayerViolation (Path (h pkg)) (Layer (h pkg)) L
        \<in> set (snd (checkDependencies packages config (h, []))))
       = (\<exists>rule. governing (DependencyRules config) (Layer (h pkg)) L = Some rule \<and> \<not> Allow rule)) \<and>
    ((\<forall>r\<in>set before. \<not> (matchPattern (Layer (h pkg)) (From r) \<and> matchPattern L (To r))) \<and>
       matchPattern (Layer (h pkg)) (From rule) \<and> matchPattern L (To rule) \<longrightarrow>
       governing (before @ rule # later) (Layer (h pkg)) L = Some rule \<and>
       checkLayerRules pkg L (before @ rule # later) (h, out)
         = (h, if Allow rule then out else out @ [LayerViolation (Path (h pkg)) (Layer (h pkg)) L])) \<and>
    ((\<forall>r\<in>set rules. \<not> (matchPattern (Layer (h pkg)) (From r) \<and> matchPattern L (To r))) \<longrightarrow>
       governing rules (Layer (h pkg)) L = None \<and>
       checkLayerRules pkg L rules (h, out) = (h, out)) \<and>
    (Layer (h pkg) = ''domain'' \<longrightarrow>
       checkLayerRules pkg ''domain''
         [\<lparr>From = ''domain'', To = ''domain'', Allow = True\<rparr>,
          \<lparr>From = ''domain'', To = ''*'', Allow = False\<rparr>] (h, out) = (h, out) \<and>
       checkLayerRules pkg ''application''
         [\<lparr>From = ''domain'', To = ''domain'', Allow = True\<rparr>,
          \<lparr>From = ''domain'', To = ''*'', Allow = False\<rparr>] (h, out)
         = (h, out @ [LayerViolation (Path (h pkg)) ''domain'' ''application'']))"
proof (intro conjI impI)
  show "(LayerViolation (Path (h pkg)) (Layer (h pkg)) L
        \<in> set (snd (checkDependencies packages config (h, []))))
       = (\<exists>rule. governing (DependencyRules config) (Layer (h pkg)) L = Some rule \<and> \<not> Allow rule)"
    unfolding LayerViolation_in_output using assms by blast
next
  assume a: "(\<forall>r\<in>set before. \<not> (matchPattern (Layer (h pkg)) (From r) \<and> matchPattern L (To r))) \<and>
       matchPattern (Layer (h pkg)) (From rule) \<and> matchPattern L (To rule)"
  then show g: "governing (before @ rule # later) (Layer (h pkg)) L = Some rule"
    by (simp add: governing_first_match) (simp add: governing_def)
  show "checkLayerRules pkg L (before @ rule # later) (h, out)
         = (h, if Allow rule then out else out @ [LayerViolation (Path (h pkg)) (Layer (h pkg)) L])"
    by (simp add: checkLayerRules_eq g)
next
  assume a: "\<forall>r\<in>set rules. \<not> (matchPattern (Layer (h pkg)) (From r) \<and> matchPattern L (To r))"
  then show g: "governing rules (Layer (h pkg)) L = None"
    by (simp add: governing_def find_None_iff)
  show "checkLayerRules pkg L rules (h, out) = (h, out)"
    by (simp add: checkLayerRules_eq g)
next
  assume d: "Layer (h pkg) = ''domain''"
  show "checkLayerRules pkg ''domain''
         [\<lparr>From = ''domain'', To = ''domain'', Allow = True\<rparr>,
          \<lparr>From = ''domain'', To = ''*'', Allow = False\<rparr>] (h, out) = (h, out)"
    by (simp add: d matchPattern_examples)
  show "checkLayerRules pkg ''application''
         [\<lparr>From = ''domain'', To = ''domain'', Allow = True\<rparr>,
          \<lparr>From = ''domain'', To = ''*'', Allow = False\<rparr>] (h, out)
         = (h, out @ [LayerViolation (Path (h pkg)) ''domain'' ''application''])"
    by (simp add: d matchPattern_examples printf_def)
qed

theorem checkDependencies_first_match_governs_witness:
  "LayerViolation ''m/domain'' ''domain'' ''infrastructure''
     \<in> set (snd (checkDependencies example_packages config_yaml (example_analyzed, []))) \<and>
   governing (DependencyRules config_yaml) ''domain'' ''infrastructure''
     = Some \<lparr>From = ''domain'', To = ''*'', Allow = False\<rparr>"
proof -
  have u: "(''m/domain'', 0) \<in> set example_packages"
    by (simp add: example_packages_def)
  have l: "''infrastructure'' \<in> fst ` set (LayerDeps (example_analyzed 0))"
    by (simp add: example_analyzed_eq)
  have f: "Path (example_analyzed 0) = ''m/domain''" "Layer (example_analyzed 0) = ''domain''"
    by (simp_all add: example_analyzed_eq example_heap_def)
  have g: "governing (DependencyRules config_yaml) ''domain'' ''infrastructure''
     = Some \<lparr>From = ''domain'', To = ''*'', Allow = False\<rparr>"
    by (simp add: governing_def config_yaml_def matchPattern_def Contains_def HasPrefix_def)
  show ?thesis
    using checkDependencies_first_match_governs [where key = "''m/domain''" and pkg = 0
        and packages = example_packages and h = example_analyzed and L = "''infrastructure''"
        and config = config_yaml, OF u l] f g
    by simp
qed

theorem checkDependencies_read_only_witness:
  "fst (checkDependencies example_packages config_yaml (example_analyzed, [])) = example_analyzed"
  using checkDependencies_read_only [of example_packages config_yaml "(example_analyzed, [])"]
  by simp

lemma example_violation_text:
  "render (LayerViolation ''m/domain'' ''domain'' ''infrastructure'')
     = ''LAYER VIOLATION: m/domain (domain) -> infrastructure'' @ [CHR 0x0A]"
  by simp

lemma example_run:
  "snd (checkDependencies example_packages config_yaml (example_analyzed, []))
     = [LayerViolation ''m/domain'' ''domain'' ''infrastructure'',
        DebugLayerDeps ''m/domain'' ''domain'' ''infrastructure'',
        ExternalViolation ''m/domain'' ''domain'' ''fmt'']"
  by (simp add: checkDependencies_eq example_packages_def example_analyzed_eq example_heap_def
      unitLines_def layerEdgeLines_def externalEdgeLines_def governing_def config_yaml_def
      matchPattern_def Contains_def HasPrefix_def)

section \<open>Properties of the command line\<close>

text \<open>
  Claim C7, as the code has it. The program has two flags, \<open>project-root\<close> with the
  empty string as its default and \<open>config\<close> with the default \<open>config.yaml\<close>. It ends
  with the fatal usage error, printing nothing and consulting neither the configuration
  loader nor the project walk, exactly when the value of \<open>project-root\<close> or the value
  of \<open>config\<close> is empty; so it does whenever \<open>project-root\<close> is not supplied, and the
  exit status is then 1. Leaving \<open>config\<close> out is the same as passing \<open>config.yaml\<close>.
\<close>

theorem main_usage_error:
  "((main loadConfig parseProject args = Fatal [] usageError)
      = (flagString (projectRootFlag args) [] = [] \<or> flagString (configFlag args) ''config.yaml'' = [])) \<and>
   (projectRootFlag args = None \<longrightarrow> main loadConfig parseProject args = Fatal [] usageError) \<and>
   exitStatus (Fatal [] usageError) = 1 \<and>
   (configFlag args = None \<longrightarrow>
      main loadConfig parseProject args
        = main loadConfig parseProject (args\<lparr>configFlag := Some ''config.yaml''\<rparr>))"
  by (simp add: main_def Let_def flagString_def usageError_def split: sum.splits prod.splits option.splits)

theorem main_usage_error_witness:
  "main (\<lambda>path. if path = ''config.yaml'' then Inr config_yaml else Inl ''no such file'')
      (\<lambda>root config. ([], Inr (example_packages, example_heap)))
      \<lparr>projectRootFlag = None, configFlag = None\<rparr>
     = Fatal [] usageError \<and>
   main (\<lambda>path. if path = ''config.yaml'' then Inr config_yaml else Inl ''no such file'')
      (\<lambda>root config. ([], Inr (example_packages, example_heap)))
      \<lparr>projectRootFlag = Some ''proj'', configFlag = Some []\<rparr>
     = Fatal [] usageError"
  using main_usage_error [of "\<lambda>path. if path = ''config.yaml'' then Inr config_yaml else Inl ''no such file''"
      "\<lambda>root config. ([], Inr (example_packages, example_heap))"
      "\<lparr>projectRootFlag = None, configFlag = None\<rparr>"]
    main_usage_error [of "\<lambda>path. if path = ''config.yaml'' then Inr config_yaml else Inl ''no such file''"
      "\<lambda>root config. ([], Inr (example_packages, example_heap))"
      "\<lparr>projectRootFlag = Some ''proj'', configFlag = Some []\<rparr>"]
  by (simp add: flagString_def)

text \<open>
  Claim C7, as the spec states it, fails: the \<open>config\<close> flag is not required. With
  only \<open>project-root\<close> supplied the program loads \<open>config.yaml\<close>, analyses the example
  project and exits with status 0.
\<close>

theorem main_config_flag_counterexample:
  "main (\<lambda>path. if path = ''config.yaml'' then Inr config_yaml else Inl ''no such file'')
      (\<lambda>root config. ([], Inr (example_packages, example_heap)))
      \<lparr>projectRootFlag = Some ''proj'', configFlag = None\<rparr>
     = Exited [LayerViolation ''m/domain'' ''domain'' ''infrastructure'',
               DebugLayerDeps ''m/domain'' ''domain'' ''infrastructure'',
               ExternalViolation ''m/domain'' ''domain'' ''fmt''] \<and>
   exitStatus (Exited [LayerViolation ''m/domain'' ''domain'' ''infrastructure'',
               DebugLayerDeps ''m/domain'' ''domain'' ''infrastructure'',
               ExternalViolation ''m/domain'' ''domain'' ''fmt'']) = 0"
proof -
  have a: "analyzePackages example_packages config_yaml (example_heap, []) = (example_analyzed, [])"
    by (simp add: example_analyzePackages example_analyzed_eq)
  show ?thesis
    by (simp add: main_def flagString_def a example_run)
qed

end
